theory Spec2Isabelle
  imports Complex_Main "HOL-Library.Multiset"
begin

section \<open>Data model (types.ts)\<close>

text \<open>
  \<^verbatim>\<open>FeedbackMessage\<close> and \<^verbatim>\<open>TranscriptionEntry\<close> of types.ts. The tool-call handler
  fills \<^verbatim>\<open>category\<close>, \<^verbatim>\<open>message\<close> and \<^verbatim>\<open>sentiment\<close> from an \<^verbatim>\<open>any\<close>-typed
  argument object without a check (the cast \<^verbatim>\<open>as Sentiment\<close> is erased at run time), so at
  run time each of the three holds a string or \<^verbatim>\<open>undefined\<close>: an option.
  Timestamps are \<^verbatim>\<open>Date.now()\<close> readings, integers (milliseconds).
\<close>

record FeedbackMessage =
  fb_id :: string
  fb_category :: "string option"
  fb_message :: "string option"
  fb_sentiment :: "string option"
  fb_timestamp :: int

datatype role = User | Model

record TranscriptionEntry =
  te_role :: role
  te_text :: string
  te_timestamp :: int

section \<open>Messages of the live channel\<close>

text \<open>
  The fields of a \<^verbatim>\<open>LiveServerMessage\<close> that \<^verbatim>\<open>onmessage\<close> reads. The optional chain
  \<^verbatim>\<open>msg.serverContent?.modelTurn?.parts?.[0]?.inlineData?.data\<close> is one optional string;
  an absent \<^verbatim>\<open>serverContent\<close> is the message with every such field absent.
  \<^verbatim>\<open>fc.args\<close> is optional in the channel's type (hence the cast \<^verbatim>\<open>fc.args as any\<close>);
  three keys of it are read, by the state updater the handler builds. The \<^verbatim>\<open>text\<close> of a transcription is optional too.
  An absent \<^verbatim>\<open>functionCalls\<close> would throw at the head of the loop, the last statement of
  the handler, and so leaves the state that an empty list of calls leaves; it is not
  told apart from the empty list.
\<close>

record Transcription =
  tr_text :: "string option"

record FunctionArgs =
  arg_category :: "string option"
  arg_message :: "string option"
  arg_sentiment :: "string option"

record FunctionCall =
  fc_id :: string
  fc_name :: string
  fc_args :: "FunctionArgs option"

record LiveServerMessage =
  audioData :: "string option"
  interrupted :: bool
  inputTranscription :: "Transcription option"
  outputTranscription :: "Transcription option"
  turnComplete :: bool
  toolCall :: "FunctionCall list option"

text \<open>The argument of \<^verbatim>\<open>session.sendToolResponse\<close>.\<close>

record FunctionResponse =
  fr_id :: string
  fr_name :: string
  fr_result :: string

section \<open>State of the App component\<close>

text \<open>
  An \<^verbatim>\<open>AudioBufferSourceNode\<close>: its identity (JavaScript objects are compared by
  identity; the number is the position of its creation), the time passed to
  \<^verbatim>\<open>start\<close>, and the duration of its buffer. Times of the audio clock are JavaScript
  numbers, idealised as reals; the handler only applies \<^verbatim>\<open>Math.max\<close> and \<^verbatim>\<open>+\<close> to them.
\<close>

record SourceNode =
  node :: nat
  startAt :: real
  duration :: real

text \<open>The JavaScript exceptions that occur: a failed decode, a read of an absent object.\<close>

datatype js_error = DecodeError | TypeError

text \<open>
  The React state (\<^verbatim>\<open>isActive\<close>, \<^verbatim>\<open>isSpeaking\<close>, \<^verbatim>\<open>feedbacks\<close>, \<^verbatim>\<open>transcriptions\<close>,
  \<^verbatim>\<open>error\<close>), the refs (\<^verbatim>\<open>nextStartTimeRef\<close>, \<^verbatim>\<open>sourcesRef\<close>, \<^verbatim>\<open>sessionRef\<close>,
  \<^verbatim>\<open>transcriptionBufferRef\<close>), and what the component has done to its environment:
  \<^item> \<open>started\<close>: the nodes on which \<^verbatim>\<open>start\<close> was called, in order (the schedule of the
    output audio context);
  \<^item> \<open>stopped\<close>: the identities of the nodes on which \<^verbatim>\<open>stop\<close> was called;
  \<^item> \<open>closes\<close>: how often \<^verbatim>\<open>session.close\<close> was called;
  \<^item> \<open>sent\<close>: the tool responses sent, in order;
  \<^item> \<open>micLive\<close>: the microphone stream of \<^verbatim>\<open>getUserMedia\<close> is live;
    \<open>capturing\<close>: the script processor is connected and forwards microphone blocks;
  \<^item> \<open>awaiting\<close>: the messages whose handler is suspended at
    \<^verbatim>\<open>await decodeAudioData(...)\<close>;
  \<^item> \<open>renderErrors\<close>: the exceptions thrown by state updaters when React applied them.
  \<^verbatim>\<open>sourcesRef\<close> is a JavaScript \<^verbatim>\<open>Set\<close>: a duplicate-free collection in insertion order.
\<close>

record app =
  isActive :: bool
  isSpeaking :: bool
  feedbacks :: "FeedbackMessage list"
  transcriptions :: "TranscriptionEntry list"
  error :: "string option"
  nextStartTime :: real
  sources :: "SourceNode list"
  session :: bool
  bufUser :: string
  bufModel :: string
  started :: "SourceNode list"
  stopped :: "nat list"
  closes :: nat
  sent :: "FunctionResponse list"
  micLive :: bool
  capturing :: bool
  awaiting :: "LiveServerMessage list"
  renderErrors :: "js_error list"

definition init :: app where
  "init = \<lparr>isActive = False, isSpeaking = False, feedbacks = [], transcriptions = [],
     error = None, nextStartTime = 0, sources = [], session = False,
     bufUser = [], bufModel = [], started = [], stopped = [], closes = 0, sent = [],
     micLive = False, capturing = False, awaiting = [], renderErrors = []\<rparr>"

text \<open>
  What a run of the handler reads from its environment: \<^verbatim>\<open>ctx.currentTime\<close>, the
  \<^verbatim>\<open>Date.now()\<close> of each transcript entry, and the \<^verbatim>\<open>Date.now()\<close> and the
  \<^verbatim>\<open>Math.random().toString(36).substr(2, 9)\<close> of the function call at each position of
  the message.
\<close>

record env =
  currentTime :: real
  entryNow :: "role \<Rightarrow> int"
  callNow :: "nat \<Rightarrow> int"
  callRandom :: "nat \<Rightarrow> string"

section \<open>Playback scheduling (onmessage, audio and interruption)\<close>

text \<open>\<^verbatim>\<open>Set.prototype.add\<close> and \<^verbatim>\<open>Set.prototype.delete\<close>, by object identity.\<close>

definition set_add :: "SourceNode \<Rightarrow> SourceNode list \<Rightarrow> SourceNode list" where
  "set_add x xs = (if node x \<in> set (map node xs) then xs else xs @ [x])"

definition set_delete :: "nat \<Rightarrow> SourceNode list \<Rightarrow> SourceNode list" where
  "set_delete k xs = filter (\<lambda>y. node y \<noteq> k) xs"

text \<open>
  The audio branch up to the await:
  \<^verbatim>\<open>setIsSpeaking(true); nextStartTimeRef.current = Math.max(nextStartTimeRef.current, ctx.currentTime)\<close>.
\<close>

definition audioBegin :: "real \<Rightarrow> app \<Rightarrow> app" where
  "audioBegin now s =
     s\<lparr>isSpeaking := True, nextStartTime := max (nextStartTime s) now\<rparr>"

text \<open>
  The audio branch after the await, with the duration \<open>d\<close> of the decoded buffer: create
  the node, \<^verbatim>\<open>source.start(nextStartTimeRef.current)\<close>,
  \<^verbatim>\<open>nextStartTimeRef.current += audioBuffer.duration\<close>, \<^verbatim>\<open>sourcesRef.current.add(source)\<close>.
\<close>

definition audioResume :: "real \<Rightarrow> app \<Rightarrow> app" where
  "audioResume d s =
     (let src = \<lparr>node = length (started s), startAt = nextStartTime s, duration = d\<rparr>
      in s\<lparr>started := started s @ [src],
           nextStartTime := nextStartTime s + d,
           sources := set_add src (sources s)\<rparr>)"

text \<open>
  The whole audio branch when nothing else runs during the await. \<^verbatim>\<open>decode\<close> and
  \<^verbatim>\<open>decodeAudioData\<close> come from services/audio-processing, which is not among the
  sources: the outcome of decoding is a parameter, \<open>Some d\<close> for a buffer of duration
  \<open>d\<close>, \<open>None\<close> when decoding throws. Nothing catches that exception, so the handler
  ends there.
\<close>

definition enqueue :: "real \<Rightarrow> real option \<Rightarrow> app \<Rightarrow> app \<times> js_error option" where
  "enqueue now r s =
     (let s1 = audioBegin now s
      in case r of
           None \<Rightarrow> (s1, Some DecodeError)
         | Some d \<Rightarrow> (audioResume d s1, None))"

text \<open>\<^verbatim>\<open>source.onended\<close> of the node \<open>k\<close>.\<close>

definition onended :: "nat \<Rightarrow> app \<Rightarrow> app" where
  "onended k s =
     (let remaining = set_delete k (sources s)
      in s\<lparr>sources := remaining,
           isSpeaking := (if remaining = [] then False else isSpeaking s)\<rparr>)"

text \<open>\<^verbatim>\<open>sourcesRef.current.forEach(s => s.stop()); sourcesRef.current.clear()\<close>.\<close>

definition stopAll :: "app \<Rightarrow> app" where
  "stopAll s = s\<lparr>stopped := stopped s @ map node (sources s), sources := []\<rparr>"

text \<open>The branch of \<^verbatim>\<open>msg.serverContent?.interrupted\<close>.\<close>

definition interrupt :: "app \<Rightarrow> app" where
  "interrupt s = (stopAll s)\<lparr>nextStartTime := 0, isSpeaking := False\<rparr>"

section \<open>Transcript aggregation (onmessage, transcriptions and turnComplete)\<close>

text \<open>
  \<^verbatim>\<open>buffer += x\<close> on a string buffer appends the string \<open>x\<close>, and the string
  \<^verbatim>\<open>"undefined"\<close> when \<open>x\<close> is absent.
\<close>

definition textOf :: "Transcription \<Rightarrow> string" where
  "textOf t = (case tr_text t of None \<Rightarrow> ''undefined'' | Some x \<Rightarrow> x)"

definition appendUser :: "string \<Rightarrow> app \<Rightarrow> app" where
  "appendUser fragment s = s\<lparr>bufUser := bufUser s @ fragment\<rparr>"

definition appendModel :: "string \<Rightarrow> app \<Rightarrow> app" where
  "appendModel fragment s = s\<lparr>bufModel := bufModel s @ fragment\<rparr>"

text \<open>
  The branch of \<^verbatim>\<open>turnComplete\<close>. A JavaScript string is truthy when it is not empty.
\<close>

definition flushTurn :: "env \<Rightarrow> app \<Rightarrow> app" where
  "flushTurn e s =
     (let uText = bufUser s; mText = bufModel s;
          s1 = (if uText \<noteq> [] \<or> mText \<noteq> [] then
                  s\<lparr>transcriptions := transcriptions s
                       @ (if uText \<noteq> [] then
                            [\<lparr>te_role = User, te_text = uText, te_timestamp = entryNow e User\<rparr>]
                          else [])
                       @ (if mText \<noteq> [] then
                            [\<lparr>te_role = Model, te_text = mText, te_timestamp = entryNow e Model\<rparr>]
                          else [])\<rparr>
                else s)
      in s1\<lparr>bufUser := [], bufModel := []\<rparr>)"

section \<open>Tool calls (onmessage, toolCall)\<close>

text \<open>
  The updater passed to \<^verbatim>\<open>setFeedbacks\<close> for the call at position \<open>i\<close>, as React applies
  it: \<^verbatim>\<open>prev => [{ id: ..., category: args.category, ... }, ...prev]\<close>. The argument
  object is read only here, not in the handler. With an absent \<^verbatim>\<open>args\<close> the read throws a
  TypeError inside the updater: no event is put into \<^verbatim>\<open>feedbacks\<close>, and the error is
  logged in \<open>renderErrors\<close> (what React then does with the component is outside this
  model). Absent keys of a present \<^verbatim>\<open>args\<close> read as \<^verbatim>\<open>undefined\<close>.
\<close>

definition setFeedbacks :: "env \<Rightarrow> nat \<Rightarrow> FunctionArgs option \<Rightarrow> app \<Rightarrow> app" where
  "setFeedbacks e i args s =
     (case args of
        None \<Rightarrow> s\<lparr>renderErrors := renderErrors s @ [TypeError]\<rparr>
      | Some a \<Rightarrow>
          s\<lparr>feedbacks :=
              \<lparr>fb_id = callRandom e i,
               fb_category = arg_category a,
               fb_message = arg_message a,
               fb_sentiment = arg_sentiment a,
               fb_timestamp = callNow e i\<rparr> # feedbacks s\<rparr>)"

text \<open>
  The loop over \<^verbatim>\<open>msg.toolCall.functionCalls\<close>; \<open>i\<close> is the position of the call in the
  message. For a call named \<^verbatim>\<open>provideFeedback\<close> the handler binds \<^verbatim>\<open>fc.args\<close>, hands the
  updater to \<^verbatim>\<open>setFeedbacks\<close> and sends the tool response; it does this whether or not
  the updater will throw, and goes on to the next call.
\<close>

fun dispatch :: "env \<Rightarrow> nat \<Rightarrow> FunctionCall list \<Rightarrow> app \<Rightarrow> app" where
  "dispatch e i [] s = s"
| "dispatch e i (fc # fcs) s =
     (if fc_name fc = ''provideFeedback'' then
        (let s1 = setFeedbacks e i (fc_args fc) s
         in dispatch e (Suc i) fcs
              (s1\<lparr>sent := sent s1
                 @ [\<lparr>fr_id = fc_id fc, fr_name = fc_name fc,
                     fr_result = ''feedback_received''\<rparr>]\<rparr>))
      else dispatch e (Suc i) fcs s)"

section \<open>The message handler\<close>

text \<open>\<^verbatim>\<open>if (audioData)\<close>: present and not the empty string.\<close>

definition hasAudio :: "LiveServerMessage \<Rightarrow> bool" where
  "hasAudio m = (case audioData m of None \<Rightarrow> False | Some a \<Rightarrow> a \<noteq> [])"

text \<open>
  The branches of the handler that read \<^verbatim>\<open>msg.serverContent\<close> after the audio:
  interruption, the two transcriptions, and \<^verbatim>\<open>turnComplete\<close>.
\<close>

definition onmessageContent :: "LiveServerMessage \<Rightarrow> env \<Rightarrow> app \<Rightarrow> app" where
  "onmessageContent m e s =
     (let s1 = (if interrupted m then interrupt s else s);
          s2 = (case inputTranscription m of
                  None \<Rightarrow> s1
                | Some t \<Rightarrow> appendUser (textOf t) s1);
          s3 = (case outputTranscription m of
                  None \<Rightarrow> s2
                | Some t \<Rightarrow> appendModel (textOf t) s2)
      in if turnComplete m then flushTurn e s3 else s3)"

text \<open>
  The handler from the interruption branch to its end. With the calls given as a list,
  no statement of it throws: it ends without an error.
\<close>

definition onmessageRest :: "LiveServerMessage \<Rightarrow> env \<Rightarrow> app \<Rightarrow> app \<times> js_error option" where
  "onmessageRest m e s =
     (case toolCall m of
        None \<Rightarrow> (onmessageContent m e s, None)
      | Some fcs \<Rightarrow> (dispatch e 0 fcs (onmessageContent m e s), None))"

text \<open>
  The handler up to its first suspension: with audio it stops at the await and the
  message waits for the decoder; without audio it runs to its end.
\<close>

definition onmessageBegin :: "LiveServerMessage \<Rightarrow> env \<Rightarrow> app \<Rightarrow> app \<times> js_error option" where
  "onmessageBegin m e s =
     (if hasAudio m then
        ((audioBegin (currentTime e) s)\<lparr>awaiting := awaiting s @ [m]\<rparr>, None)
      else onmessageRest m e s)"

text \<open>The handler from the await on, once the decoder has settled with \<open>r\<close>.\<close>

definition onmessageResume ::
  "real option \<Rightarrow> LiveServerMessage \<Rightarrow> env \<Rightarrow> app \<Rightarrow> app \<times> js_error option" where
  "onmessageResume r m e s =
     (case r of
        None \<Rightarrow> (s, Some DecodeError)
      | Some d \<Rightarrow> onmessageRest m e (audioResume d s))"

text \<open>The handler run as one piece: the decoder settles before anything else happens.\<close>

definition onmessage ::
  "LiveServerMessage \<Rightarrow> env \<Rightarrow> real option \<Rightarrow> app \<Rightarrow> app \<times> js_error option" where
  "onmessage m e r s =
     (if hasAudio m then
        (case enqueue (currentTime e) r s of
           (s1, Some err) \<Rightarrow> (s1, Some err)
         | (s1, None) \<Rightarrow> onmessageRest m e s1)
      else onmessageRest m e s)"

section \<open>Session control\<close>

definition stopSession :: "app \<Rightarrow> app" where
  "stopSession s =
     (let s1 = (if session s then s\<lparr>closes := closes s + 1, session := False\<rparr> else s)
      in stopAll (s1\<lparr>isActive := False, isSpeaking := False\<rparr>))"

definition onerror :: "app \<Rightarrow> app" where
  "onerror s =
     stopSession (s\<lparr>error := Some ''Communication lost. Please try restarting the session.''\<rparr>)"

definition onclose :: "app \<Rightarrow> app" where
  "onclose s = s\<lparr>isActive := False\<rparr>"

text \<open>
  What can happen to the component, one event per run of a callback between two
  suspension points. \<^verbatim>\<open>startSession\<close> is \<open>StartClicked\<close> (up to the first await), then
  \<open>MicGranted\<close> (\<^verbatim>\<open>getUserMedia\<close> resolved), \<open>Opened\<close> (\<^verbatim>\<open>onopen\<close>), \<open>Connected\<close>
  (\<^verbatim>\<open>sessionRef.current = await sessionPromise\<close>), or \<open>StartFailed\<close> (the catch block).
  \<open>Settled k r e\<close> resumes the \<open>k\<close>-th suspended handler with the decoder's outcome \<open>r\<close>.
\<close>

datatype event =
    StartClicked
  | MicGranted
  | StartFailed
  | Opened
  | Connected
  | Arrive LiveServerMessage env
  | Settled nat "real option" env
  | Ended nat
  | StopClicked
  | ChannelError
  | ChannelClosed

fun step :: "event \<Rightarrow> app \<Rightarrow> app" where
  "step StartClicked s = s\<lparr>error := None, isActive := True\<rparr>"
| "step MicGranted s = s\<lparr>micLive := True\<rparr>"
| "step StartFailed s =
     s\<lparr>error := Some ''Could not access microphone or camera. Please check permissions.'',
       isActive := False\<rparr>"
| "step Opened s = s\<lparr>capturing := True\<rparr>"
| "step Connected s = s\<lparr>session := True\<rparr>"
| "step (Arrive m e) s = fst (onmessageBegin m e s)"
| "step (Settled k r e) s =
     (if k < length (awaiting s) then
        fst (onmessageResume r (awaiting s ! k) e
               (s\<lparr>awaiting := take k (awaiting s) @ drop (Suc k) (awaiting s)\<rparr>))
      else s)"
| "step (Ended k) s = onended k s"
| "step StopClicked s = stopSession s"
| "step ChannelError s = onerror s"
| "step ChannelClosed s = onclose s"

fun run :: "event list \<Rightarrow> app \<Rightarrow> app" where
  "run [] s = s"
| "run (ev # evs) s = run evs (step ev s)"

section \<open>Runs without interleaving\<close>

text \<open>
  A sequence of audio chunks, each given by the audio clock at its arrival and the
  duration of its decoded buffer, enqueued one after the other with every decode
  succeeding and nothing else happening in between.
\<close>

definition enqueueAll :: "(real \<times> real) list \<Rightarrow> app \<Rightarrow> app" where
  "enqueueAll cs s = foldl (\<lambda>s' (now, d). fst (enqueue now (Some d) s')) s cs"

text \<open>
  An action is an event handled as one piece: \<open>Receive m e d\<close> is a message whose audio,
  if it carries any, is decoded to a buffer of duration \<open>d\<close> before any other callback
  runs; the other actions are the events that have no suspension point.
\<close>

datatype action =
    PressStart
  | Granted
  | Failed
  | Open
  | Connect
  | Receive LiveServerMessage env real
  | PlaybackEnded nat
  | PressStop
  | Error
  | Close

fun events_of :: "action \<Rightarrow> event list" where
  "events_of PressStart = [StartClicked]"
| "events_of Granted = [MicGranted]"
| "events_of Failed = [StartFailed]"
| "events_of Open = [Opened]"
| "events_of Connect = [Connected]"
| "events_of (Receive m e d) =
     (if hasAudio m then [Arrive m e, Settled 0 (Some d) e] else [Arrive m e])"
| "events_of (PlaybackEnded k) = [Ended k]"
| "events_of PressStop = [StopClicked]"
| "events_of Error = [ChannelError]"
| "events_of Close = [ChannelClosed]"

text \<open>The speaking indicator agrees with the set of active sources.\<close>

definition consistent :: "app \<Rightarrow> bool" where
  "consistent s = ((sources s \<noteq> []) = isSpeaking s)"

section \<open>The feedback list (components/FeedbackList)\<close>

text \<open>
  \<^verbatim>\<open>Array.prototype.sort\<close> with a comparator: a stable sort that puts \<open>a\<close> before \<open>b\<close>
  when \<open>cmp a b \<le> 0\<close>; here as insertion from the right end.
\<close>

fun insert_cmp :: "('a \<Rightarrow> 'a \<Rightarrow> int) \<Rightarrow> 'a \<Rightarrow> 'a list \<Rightarrow> 'a list" where
  "insert_cmp cmp x [] = [x]"
| "insert_cmp cmp x (y # ys) =
     (if cmp x y \<le> 0 then x # y # ys else y # insert_cmp cmp x ys)"

definition js_sort :: "('a \<Rightarrow> 'a \<Rightarrow> int) \<Rightarrow> 'a list \<Rightarrow> 'a list" where
  "js_sort cmp xs = foldr (insert_cmp cmp) xs []"

text \<open>The comparator \<^verbatim>\<open>(a, b) => b.timestamp - a.timestamp\<close>.\<close>

definition newestFirst :: "FeedbackMessage \<Rightarrow> FeedbackMessage \<Rightarrow> int" where
  "newestFirst a b = fb_timestamp b - fb_timestamp a"

text \<open>
  Arrays are mutable objects: a heap of arrays, a reference being an index into it.
  \<^verbatim>\<open>[...xs]\<close> allocates a new array with the elements of \<open>xs\<close>; \<^verbatim>\<open>sort\<close> sorts the
  array it is called on in place and returns the same reference.
\<close>

type_synonym heap = "FeedbackMessage list list"

definition spread :: "heap \<Rightarrow> nat \<Rightarrow> heap \<times> nat" where
  "spread h a = (h @ [h ! a], length h)"

definition array_sort ::
  "(FeedbackMessage \<Rightarrow> FeedbackMessage \<Rightarrow> int) \<Rightarrow> heap \<Rightarrow> nat \<Rightarrow> heap \<times> nat" where
  "array_sort cmp h a = (h[a := js_sort cmp (h ! a)], a)"

text \<open>
  What the component renders: the placeholder when there is nothing to show, else one
  card per element of \<^verbatim>\<open>sortedFeedbacks\<close>, in its order.
\<close>

datatype view = Placeholder | Cards "FeedbackMessage list"

definition FeedbackList :: "heap \<Rightarrow> nat \<Rightarrow> heap \<times> view" where
  "FeedbackList h feedbacksRef =
     (let (h1, copy) = spread h feedbacksRef;
          (h2, sortedFeedbacks) = array_sort newestFirst h1 copy
      in (h2, if length (h2 ! sortedFeedbacks) = 0 then Placeholder
              else Cards (h2 ! sortedFeedbacks)))"

text \<open>The cards of a view, in rendered order.\<close>

fun cards :: "view \<Rightarrow> FeedbackMessage list" where
  "cards Placeholder = []"
| "cards (Cards fs) = fs"

section \<open>Notions used in the statements\<close>

text \<open>The handles created by enqueueing the chunks \<open>cs\<close> from the state \<open>s\<close>, in order.\<close>

definition handles :: "(real \<times> real) list \<Rightarrow> app \<Rightarrow> SourceNode list" where
  "handles cs s = drop (length (started s)) (started (enqueueAll cs s))"

text \<open>No handler is suspended and the speaking indicator agrees with the sources.\<close>

definition settled :: "app \<Rightarrow> bool" where
  "settled s = (awaiting s = [] \<and> consistent s)"

text \<open>
  The response the handler builds for a call:
  \<^verbatim>\<open>{ id: fc.id, name: fc.name, response: { result: "feedback_received" } }\<close>.
\<close>

definition acknowledgment :: "FunctionCall \<Rightarrow> FunctionResponse" where
  "acknowledgment fc =
     \<lparr>fr_id = fc_id fc, fr_name = fc_name fc, fr_result = ''feedback_received''\<rparr>"

definition isFeedbackCall :: "FunctionCall \<Rightarrow> bool" where
  "isFeedbackCall fc = (fc_name fc = ''provideFeedback'')"

text \<open>Every call named \<^verbatim>\<open>provideFeedback\<close> carries an argument object.\<close>

definition withArgs :: "FunctionCall list \<Rightarrow> bool" where
  "withArgs fcs = list_all (\<lambda>fc. isFeedbackCall fc \<longrightarrow> fc_args fc \<noteq> None) fcs"

text \<open>
  The event the updater builds for the call at position \<open>i\<close> from its arguments, and
  the events of the calls named \<^verbatim>\<open>provideFeedback\<close> of a message, in the order of the
  calls.
\<close>

definition feedbackOf :: "env \<Rightarrow> nat \<Rightarrow> FunctionArgs \<Rightarrow> FeedbackMessage" where
  "feedbackOf e i a =
     \<lparr>fb_id = callRandom e i, fb_category = arg_category a, fb_message = arg_message a,
      fb_sentiment = arg_sentiment a, fb_timestamp = callNow e i\<rparr>"

definition recorded :: "env \<Rightarrow> nat \<Rightarrow> FunctionCall list \<Rightarrow> FeedbackMessage list" where
  "recorded e i fcs =
     map (\<lambda>(j, fc). feedbackOf e j (the (fc_args fc)))
       (filter (\<lambda>(j, fc). isFeedbackCall fc) (enumerate i fcs))"

text \<open>
  The text a message carries for the user channel and for the model channel: that of
  its transcription, the string \<^verbatim>\<open>"undefined"\<close> for a transcription without text, and
  nothing without a transcription.
\<close>

definition userFragment :: "LiveServerMessage \<Rightarrow> string" where
  "userFragment m =
     (case inputTranscription m of
        None \<Rightarrow> []
      | Some t \<Rightarrow> (case tr_text t of None \<Rightarrow> ''undefined'' | Some x \<Rightarrow> x))"

definition modelFragment :: "LiveServerMessage \<Rightarrow> string" where
  "modelFragment m =
     (case outputTranscription m of
        None \<Rightarrow> []
      | Some t \<Rightarrow> (case tr_text t of None \<Rightarrow> ''undefined'' | Some x \<Rightarrow> x))"

text \<open>
  The user and model text of the turn at the moment a message reaches the
  \<^verbatim>\<open>turnComplete\<close> branch: the buffer and what the message itself carries.
\<close>

definition userTurn :: "LiveServerMessage \<Rightarrow> app \<Rightarrow> string" where
  "userTurn m s = bufUser s @ userFragment m"

definition modelTurn :: "LiveServerMessage \<Rightarrow> app \<Rightarrow> string" where
  "modelTurn m s = bufModel s @ modelFragment m"



subsection \<open>Concrete inputs\<close>

definition emptyMessage :: LiveServerMessage where
  "emptyMessage = \<lparr>audioData = None, interrupted = False, inputTranscription = None,
     outputTranscription = None, turnComplete = False, toolCall = None\<rparr>"

definition audioMessage :: LiveServerMessage where
  "audioMessage = emptyMessage\<lparr>audioData := Some ''AAAA''\<rparr>"



definition turnEnds :: LiveServerMessage where
  "turnEnds = emptyMessage\<lparr>turnComplete := True\<rparr>"



definition env0 :: env where
  "env0 = \<lparr>currentTime = 0, entryNow = (\<lambda>_. 0), callNow = (\<lambda>_. 0), callRandom = (\<lambda>_. [])\<rparr>"

text \<open>A feedback call without \<^verbatim>\<open>sentiment\<close>, and a call of another name.\<close>

definition noSentiment :: FunctionCall where
  "noSentiment = \<lparr>fc_id = ''c1'', fc_name = ''provideFeedback'',
     fc_args = Some \<lparr>arg_category = Some ''Pace'', arg_message = Some ''Slow down'',
       arg_sentiment = None\<rparr>\<rparr>"

definition fullCall :: FunctionCall where
  "fullCall = \<lparr>fc_id = ''c3'', fc_name = ''provideFeedback'',
     fc_args = Some \<lparr>arg_category = Some ''Tone'', arg_message = Some ''Good energy'',
       arg_sentiment = Some ''positive''\<rparr>\<rparr>"

definition otherCall :: FunctionCall where
  "otherCall = \<lparr>fc_id = ''c2'', fc_name = ''endInterview'',
     fc_args = Some \<lparr>arg_category = None, arg_message = None, arg_sentiment = None\<rparr>\<rparr>"

definition noArgs :: FunctionCall where
  "noArgs = \<lparr>fc_id = ''c4'', fc_name = ''provideFeedback'', fc_args = None\<rparr>"

text \<open>An active session in which one chunk of one second is scheduled at time 0.\<close>

definition playing :: app where
  "playing = run [StartClicked, MicGranted, Opened, Connected, Arrive audioMessage env0,
     Settled 0 (Some 1) env0] init"

definition fbA :: FeedbackMessage where
  "fbA = \<lparr>fb_id = ''a'', fb_category = Some ''Pace'', fb_message = Some ''Slow down'',
     fb_sentiment = Some ''improvement'', fb_timestamp = 1000\<rparr>"

definition fbB :: FeedbackMessage where
  "fbB = \<lparr>fb_id = ''b'', fb_category = Some ''Tone'', fb_message = Some ''Good energy'',
     fb_sentiment = Some ''positive'', fb_timestamp = 1000\<rparr>"

definition fbC :: FeedbackMessage where
  "fbC = \<lparr>fb_id = ''c'', fb_category = Some ''Content'', fb_message = Some ''Clear answer'',
     fb_sentiment = Some ''positive'', fb_timestamp = 2000\<rparr>"

section \<open>Frame lemmas\<close>

lemma setFeedbacks_frame:
  "sources (setFeedbacks e i a s) = sources s \<and>
   isSpeaking (setFeedbacks e i a s) = isSpeaking s \<and>
   nextStartTime (setFeedbacks e i a s) = nextStartTime s \<and>
   stopped (setFeedbacks e i a s) = stopped s \<and>
   started (setFeedbacks e i a s) = started s \<and>
   awaiting (setFeedbacks e i a s) = awaiting s \<and>
   transcriptions (setFeedbacks e i a s) = transcriptions s \<and>
   bufUser (setFeedbacks e i a s) = bufUser s \<and>
   bufModel (setFeedbacks e i a s) = bufModel s \<and>
   sent (setFeedbacks e i a s) = sent s"
  by (simp add: setFeedbacks_def split: option.splits)

lemma dispatch_frame:
  "sources (dispatch e i fcs s) = sources s \<and>
   isSpeaking (dispatch e i fcs s) = isSpeaking s \<and>
   nextStartTime (dispatch e i fcs s) = nextStartTime s \<and>
   stopped (dispatch e i fcs s) = stopped s \<and>
   started (dispatch e i fcs s) = started s \<and>
   awaiting (dispatch e i fcs s) = awaiting s"
  by (induction e i fcs s rule: dispatch.induct) (simp_all add: Let_def setFeedbacks_frame)

lemma dispatch_transcript:
  "transcriptions (dispatch e i fcs s) = transcriptions s \<and>
   bufUser (dispatch e i fcs s) = bufUser s \<and>
   bufModel (dispatch e i fcs s) = bufModel s"
  by (induction e i fcs s rule: dispatch.induct) (simp_all add: Let_def setFeedbacks_frame)

lemma interrupt_effect:
  "sources (interrupt s) = [] \<and> nextStartTime (interrupt s) = 0 \<and>
   \<not> isSpeaking (interrupt s) \<and>
   stopped (interrupt s) = stopped s @ map node (sources s) \<and>
   started (interrupt s) = started s \<and> awaiting (interrupt s) = awaiting s"
  by (simp add: interrupt_def stopAll_def)

text \<open>
  The transcription and turn-complete branches touch neither the playback state nor
  the logs: after them it is as the interruption branch left it.
\<close>

lemma onmessageContent_frame:
  "sources (onmessageContent m e s) = sources (if interrupted m then interrupt s else s) \<and>
   isSpeaking (onmessageContent m e s) = isSpeaking (if interrupted m then interrupt s else s) \<and>
   nextStartTime (onmessageContent m e s) =
     nextStartTime (if interrupted m then interrupt s else s) \<and>
   stopped (onmessageContent m e s) = stopped (if interrupted m then interrupt s else s) \<and>
   started (onmessageContent m e s) = started (if interrupted m then interrupt s else s) \<and>
   awaiting (onmessageContent m e s) = awaiting (if interrupted m then interrupt s else s)"
  by (simp add: onmessageContent_def flushTurn_def appendUser_def appendModel_def Let_def
      split: option.splits)

lemma onmessageRest_frame:
  "sources (fst (onmessageRest m e s)) = sources (onmessageContent m e s) \<and>
   isSpeaking (fst (onmessageRest m e s)) = isSpeaking (onmessageContent m e s) \<and>
   nextStartTime (fst (onmessageRest m e s)) = nextStartTime (onmessageContent m e s) \<and>
   stopped (fst (onmessageRest m e s)) = stopped (onmessageContent m e s) \<and>
   started (fst (onmessageRest m e s)) = started (onmessageContent m e s) \<and>
   awaiting (fst (onmessageRest m e s)) = awaiting (onmessageContent m e s)"
  by (simp add: onmessageRest_def dispatch_frame split: option.splits)

lemma onmessageRest_transcript:
  "transcriptions (fst (onmessageRest m e s)) = transcriptions (onmessageContent m e s) \<and>
   bufUser (fst (onmessageRest m e s)) = bufUser (onmessageContent m e s) \<and>
   bufModel (fst (onmessageRest m e s)) = bufModel (onmessageContent m e s)"
  by (simp add: onmessageRest_def dispatch_transcript split: option.splits)

lemma onmessageContent_log:
  "feedbacks (onmessageContent m e s) = feedbacks s \<and>
   sent (onmessageContent m e s) = sent s \<and>
   renderErrors (onmessageContent m e s) = renderErrors s"
  by (simp add: onmessageContent_def flushTurn_def appendModel_def appendUser_def interrupt_def
      stopAll_def Let_def split: option.splits)

lemma playing_eq:
  "playing = init\<lparr>isActive := True, isSpeaking := True, nextStartTime := 1,
     sources := [\<lparr>node = 0, startAt = 0, duration = 1\<rparr>], session := True,
     started := [\<lparr>node = 0, startAt = 0, duration = 1\<rparr>], micLive := True,
     capturing := True\<rparr>"
  by (simp add: playing_def audioMessage_def emptyMessage_def env0_def init_def
      onmessageBegin_def onmessageResume_def onmessageRest_def onmessageContent_def
      hasAudio_def audioBegin_def audioResume_def set_add_def Let_def)


section \<open>Interruption\<close>

text \<open>
  C2. Whatever the state before (any number of active sources, any next start time): once
  the handler has processed a message flagged \<^verbatim>\<open>interrupted\<close>, \<^verbatim>\<open>stop\<close> has been called
  on every source that was active, the set of active sources is empty, the next start
  time is 0 and the speaking indicator is false. The later branches of the handler
  (transcriptions, turn completion, tool calls) do not disturb this.
\<close>

theorem interrupt_resets_playback:
  assumes "interrupted m"
  shows "sources (fst (onmessageRest m e s)) = [] \<and>
    nextStartTime (fst (onmessageRest m e s)) = 0 \<and>
    \<not> isSpeaking (fst (onmessageRest m e s)) \<and>
    stopped (fst (onmessageRest m e s)) = stopped s @ map node (sources s)"
  using assms by (simp add: onmessageRest_frame onmessageContent_frame interrupt_effect)

theorem interrupt_resets_playback_witness:
  "interrupted (emptyMessage\<lparr>interrupted := True\<rparr>) \<and>
   sources playing = [\<lparr>node = 0, startAt = 0, duration = 1\<rparr>] \<and>
   nextStartTime playing = 1 \<and> isSpeaking playing \<and>
   sources (fst (onmessageRest (emptyMessage\<lparr>interrupted := True\<rparr>) env0 playing)) = [] \<and>
   nextStartTime (fst (onmessageRest (emptyMessage\<lparr>interrupted := True\<rparr>) env0 playing)) = 0 \<and>
   \<not> isSpeaking (fst (onmessageRest (emptyMessage\<lparr>interrupted := True\<rparr>) env0 playing)) \<and>
   stopped (fst (onmessageRest (emptyMessage\<lparr>interrupted := True\<rparr>) env0 playing)) = [0]"
  using interrupt_resets_playback [of "emptyMessage\<lparr>interrupted := True\<rparr>" env0 playing]
  by (simp add: emptyMessage_def playing_eq init_def)

section \<open>Gapless scheduling\<close>

lemma enqueue_ok:
  "fst (enqueue now (Some d) s) =
     s\<lparr>isSpeaking := True,
       nextStartTime := max (nextStartTime s) now + d,
       started := started s
         @ [\<lparr>node = length (started s), startAt = max (nextStartTime s) now, duration = d\<rparr>],
       sources := set_add
         \<lparr>node = length (started s), startAt = max (nextStartTime s) now, duration = d\<rparr>
         (sources s)\<rparr>"
  by (simp add: enqueue_def audioBegin_def audioResume_def Let_def)

lemma enqueueAll_snoc:
  "enqueueAll (cs @ [(now, d)]) s = fst (enqueue now (Some d) (enqueueAll cs s))"
  by (simp add: enqueueAll_def)

lemma length_started_enqueueAll:
  "length (started (enqueueAll cs s)) = length (started s) + length cs"
proof (induction cs rule: rev_induct)
  case Nil
  then show ?case by (simp add: enqueueAll_def)
next
  case (snoc c cs)
  obtain now d where c: "c = (now, d)" by (cases c)
  show ?case using snoc by (simp add: c enqueueAll_snoc enqueue_ok)
qed

text \<open>
  The handle of the \<open>j\<close>-th chunk is scheduled from the next start time of the state in
  which that chunk arrives.
\<close>

lemma started_enqueueAll_nth:
  "j < length cs \<Longrightarrow>
   started (enqueueAll cs s) ! (length (started s) + j) =
     \<lparr>node = length (started s) + j,
      startAt = max (nextStartTime (enqueueAll (take j cs) s)) (fst (cs ! j)),
      duration = snd (cs ! j)\<rparr>"
proof (induction cs rule: rev_induct)
  case Nil
  then show ?case by simp
next
  case (snoc c cs)
  obtain now d where c: "c = (now, d)" by (cases c)
  show ?case
  proof (cases "j < length cs")
    case True
    then show ?thesis using snoc.IH
      by (simp add: c enqueueAll_snoc enqueue_ok nth_append length_started_enqueueAll)
  next
    case False
    with snoc.prems have j: "j = length cs" by simp
    show ?thesis
      by (simp add: j c enqueueAll_snoc enqueue_ok nth_append length_started_enqueueAll)
  qed
qed

lemma nextStartTime_enqueueAll_Suc:
  assumes "j < length cs"
  shows "nextStartTime (enqueueAll (take (Suc j) cs) s) =
     max (nextStartTime (enqueueAll (take j cs) s)) (fst (cs ! j)) + snd (cs ! j)"
proof -
  obtain now d where c: "cs ! j = (now, d)" by (cases "cs ! j")
  have "take (Suc j) cs = take j cs @ [(now, d)]"
    using assms c by (simp add: take_Suc_conv_app_nth)
  then show ?thesis by (simp add: enqueueAll_snoc enqueue_ok c)
qed

lemma handles_nth:
  "j < length cs \<Longrightarrow>
   handles cs s ! j =
     \<lparr>node = length (started s) + j,
      startAt = max (nextStartTime (enqueueAll (take j cs) s)) (fst (cs ! j)),
      duration = snd (cs ! j)\<rparr>"
  using started_enqueueAll_nth [of j cs s]
  by (simp add: handles_def length_started_enqueueAll)

text \<open>
  C1, as the code has it. Chunks \<open>cs\<close> (arrival clock, decoded duration) are enqueued
  from any state with no interruption in between. One handle is created per chunk; the
  handle of chunk \<open>i\<close> starts at the maximum of the next start time and the clock at its
  arrival and has the chunk's duration; the next start time is then that start plus
  that duration. Hence the next handle starts at the maximum of the end of handle \<open>i\<close>
  and the clock at its own arrival: never before handle \<open>i\<close> ends, and exactly at its
  end when the next chunk arrives no later than that. A chunk that arrives after the
  previous one has ended starts at its arrival, after a gap.
\<close>

theorem gapless_schedule:
  assumes "i < length cs"
  shows "length (handles cs s) = length cs \<and>
    startAt (handles cs s ! i) =
      max (nextStartTime (enqueueAll (take i cs) s)) (fst (cs ! i)) \<and>
    duration (handles cs s ! i) = snd (cs ! i) \<and>
    nextStartTime (enqueueAll (take (Suc i) cs) s) =
      startAt (handles cs s ! i) + duration (handles cs s ! i) \<and>
    (Suc i < length cs \<longrightarrow>
       startAt (handles cs s ! Suc i) =
         max (startAt (handles cs s ! i) + duration (handles cs s ! i)) (fst (cs ! Suc i)) \<and>
       startAt (handles cs s ! i) + duration (handles cs s ! i)
         \<le> startAt (handles cs s ! Suc i) \<and>
       (fst (cs ! Suc i) \<le> startAt (handles cs s ! i) + duration (handles cs s ! i) \<longrightarrow>
          startAt (handles cs s ! Suc i) =
            startAt (handles cs s ! i) + duration (handles cs s ! i)))"
proof -
  have len: "length (handles cs s) = length cs"
    by (simp add: handles_def length_started_enqueueAll)
  have hi: "startAt (handles cs s ! i) =
      max (nextStartTime (enqueueAll (take i cs) s)) (fst (cs ! i))"
    and di: "duration (handles cs s ! i) = snd (cs ! i)"
    using handles_nth [OF assms, of s] by simp_all
  have nx: "nextStartTime (enqueueAll (take (Suc i) cs) s) =
      startAt (handles cs s ! i) + duration (handles cs s ! i)"
    using nextStartTime_enqueueAll_Suc [OF assms, of s] hi di by simp
  have hs: "startAt (handles cs s ! Suc i) =
      max (startAt (handles cs s ! i) + duration (handles cs s ! i)) (fst (cs ! Suc i))"
    if "Suc i < length cs"
    using handles_nth [OF that, of s] nx by simp
  from len hi di nx hs show ?thesis by simp
qed

text \<open>
  The scenario of the specification: chunk A of 1 s at clock 0, chunk B of 0.5 s at
  clock 0.2; B starts at 1, and the next start time ends at 1.5.
\<close>

theorem gapless_schedule_witness:
  "0 < length [(0::real, 1::real), (1/5, 1/2)] \<and>
   Suc 0 < length [(0::real, 1::real), (1/5, 1/2)] \<and>
   fst ([(0::real, 1::real), (1/5, 1/2)] ! Suc 0) \<le> 0 + 1 \<and>
   startAt (handles [(0, 1), (1/5, 1/2)] init ! 0) = 0 \<and>
   duration (handles [(0, 1), (1/5, 1/2)] init ! 0) = 1 \<and>
   nextStartTime (enqueueAll (take (Suc 0) [(0, 1), (1/5, 1/2)]) init) = 1 \<and>
   startAt (handles [(0, 1), (1/5, 1/2)] init ! Suc 0) = 1 \<and>
   nextStartTime (enqueueAll [(0, 1), (1/5, 1/2)] init) = 3/2"
  using gapless_schedule [of 0 "[(0, 1), (1/5, 1/2)]" init]
  by (simp add: enqueueAll_def enqueue_ok init_def)

text \<open>
  C1 as stated fails: a chunk of 1 s at clock 0 and the next chunk at clock 5. The second
  handle starts at 5, not at 0 + 1.
\<close>

theorem contiguous_counterexample:
  "startAt (handles [(0, 1), (5, 1)] init ! 0) = 0 \<and>
   duration (handles [(0, 1), (5, 1)] init ! 0) = 1 \<and>
   startAt (handles [(0, 1), (5, 1)] init ! 1) = 5 \<and>
   startAt (handles [(0, 1), (5, 1)] init ! 1) \<noteq>
     startAt (handles [(0, 1), (5, 1)] init ! 0) + duration (handles [(0, 1), (5, 1)] init ! 0)"
  by (simp add: handles_def enqueueAll_def enqueue_ok init_def set_add_def)

section \<open>Decode failure\<close>

text \<open>
  C5, as the code has it. When decoding the audio of a message throws, the handler ends
  with that error: no source is created or started, the set of active sources and the
  start and stop logs are as before, so what was scheduled keeps playing. The next
  start time has already been raised to the audio clock: it is the maximum of its old
  value and the clock, so it is unchanged when the clock is not ahead of it, and no
  duration is added to it.
\<close>

theorem decode_failure_state:
  assumes "hasAudio m"
  shows "snd (onmessage m e None s) = Some DecodeError \<and>
    sources (fst (onmessage m e None s)) = sources s \<and>
    started (fst (onmessage m e None s)) = started s \<and>
    stopped (fst (onmessage m e None s)) = stopped s \<and>
    nextStartTime (fst (onmessage m e None s)) = max (nextStartTime s) (currentTime e) \<and>
    (currentTime e \<le> nextStartTime s \<longrightarrow>
       nextStartTime (fst (onmessage m e None s)) = nextStartTime s)"
  using assms by (simp add: onmessage_def enqueue_def audioBegin_def)

theorem decode_failure_state_witness:
  "hasAudio audioMessage \<and>
   snd (onmessage audioMessage env0 None playing) = Some DecodeError \<and>
   sources (fst (onmessage audioMessage env0 None playing)) =
     [\<lparr>node = 0, startAt = 0, duration = 1\<rparr>] \<and>
   stopped (fst (onmessage audioMessage env0 None playing)) = [] \<and>
   currentTime env0 \<le> nextStartTime playing \<and>
   nextStartTime (fst (onmessage audioMessage env0 None playing)) = 1"
  using decode_failure_state [of audioMessage env0 playing]
  by (simp add: hasAudio_def audioMessage_def emptyMessage_def env0_def playing_eq init_def)

text \<open>
  C5 as stated fails: in the initial state the next start time is 0; a chunk that arrives
  at clock 5 and fails to decode leaves it at 5.
\<close>

theorem decode_failure_counterexample:
  "nextStartTime init = 0 \<and>
   nextStartTime (fst (onmessage audioMessage (env0\<lparr>currentTime := 5\<rparr>) None init)) = 5 \<and>
   nextStartTime (fst (onmessage audioMessage (env0\<lparr>currentTime := 5\<rparr>) None init)) \<noteq>
     nextStartTime init"
  by (simp add: onmessage_def hasAudio_def audioMessage_def emptyMessage_def env0_def
      enqueue_def audioBegin_def init_def)

section \<open>The speaking indicator\<close>

lemma onmessageRest_settled:
  "settled s \<Longrightarrow> settled (fst (onmessageRest m e s))"
  by (simp add: settled_def consistent_def onmessageRest_frame onmessageContent_frame
      interrupt_effect)

lemma set_add_nonempty: "set_add x xs \<noteq> []"
  by (cases xs) (simp_all add: set_add_def)

lemma audio_settled:
  "awaiting s = [] \<Longrightarrow> settled (audioResume d (audioBegin now s))"
  by (simp add: settled_def consistent_def audioResume_def audioBegin_def Let_def
      set_add_nonempty)

lemma run_append: "run (xs @ ys) s = run ys (run xs s)"
  by (induction xs arbitrary: s) simp_all

lemma action_settled:
  assumes st: "settled s"
  shows "settled (run (events_of a) s)"
proof (cases a)
  case (Receive m e d)
  show ?thesis
  proof (cases "hasAudio m")
    case True
    from st have aw: "awaiting s = []" by (simp add: settled_def)
    have "(audioBegin (currentTime e) s)\<lparr>awaiting := []\<rparr> = audioBegin (currentTime e) s"
      using aw by (cases s) (simp add: audioBegin_def)
    then have "run (events_of a) s =
        fst (onmessageRest m e (audioResume d (audioBegin (currentTime e) s)))"
      using True aw by (simp add: Receive onmessageBegin_def onmessageResume_def)
    then show ?thesis
      using onmessageRest_settled [OF audio_settled [OF aw]] by simp
  next
    case False
    then show ?thesis using st by (simp add: Receive onmessageBegin_def onmessageRest_settled)
  qed
qed (use st in \<open>auto simp: settled_def consistent_def onended_def set_delete_def
       stopSession_def stopAll_def onerror_def onclose_def Let_def\<close>)

text \<open>
  C7, as the code has it. In every state reached from the initial one by actions handled
  as one piece (starting, messages whose audio is decoded successfully before any other
  callback runs, the natural end of a playback, interruption, stop, channel error,
  channel close) the set of active sources is non-empty exactly when the speaking
  indicator is true, and no handler is left suspended.
\<close>

theorem speaking_consistent:
  "consistent (run (concat (map events_of acts)) init) \<and>
   awaiting (run (concat (map events_of acts)) init) = []"
proof -
  have "settled s \<Longrightarrow> settled (run (concat (map events_of acts)) s)" for s
  proof (induction acts arbitrary: s)
    case Nil
    then show ?case by simp
  next
    case (Cons a acts)
    then show ?case by (simp add: run_append action_settled)
  qed
  moreover have "settled init" by (simp add: settled_def consistent_def init_def)
  ultimately show ?thesis by (simp add: settled_def)
qed

theorem speaking_consistent_witness:
  "consistent (run (concat (map events_of
      [PressStart, Granted, Open, Connect, Receive audioMessage env0 1, PlaybackEnded 0])) init) \<and>
   sources (run (concat (map events_of
      [PressStart, Granted, Open, Connect, Receive audioMessage env0 1])) init) =
     [\<lparr>node = 0, startAt = 0, duration = 1\<rparr>] \<and>
   isSpeaking (run (concat (map events_of
      [PressStart, Granted, Open, Connect, Receive audioMessage env0 1])) init) \<and>
   sources (run (concat (map events_of
      [PressStart, Granted, Open, Connect, Receive audioMessage env0 1, PlaybackEnded 0])) init) = [] \<and>
   \<not> isSpeaking (run (concat (map events_of
      [PressStart, Granted, Open, Connect, Receive audioMessage env0 1, PlaybackEnded 0])) init)"
  using speaking_consistent [of
      "[PressStart, Granted, Open, Connect, Receive audioMessage env0 1, PlaybackEnded 0]"]
  by (simp add: onmessageBegin_def onmessageResume_def onmessageRest_def onmessageContent_def
      hasAudio_def audioMessage_def emptyMessage_def env0_def audioBegin_def audioResume_def
      onended_def set_add_def set_delete_def init_def Let_def)

text \<open>
  C7 as stated fails at the await: when the first audio message arrives the handler sets
  the speaking indicator and suspends in the decoder; in that state the indicator is
  true and no source is active.
\<close>

theorem speaking_counterexample:
  "isSpeaking (run [Arrive audioMessage env0] init) \<and>
   sources (run [Arrive audioMessage env0] init) = [] \<and>
   \<not> consistent (run [Arrive audioMessage env0] init)"
  by (simp add: consistent_def onmessageBegin_def hasAudio_def audioMessage_def
      emptyMessage_def audioBegin_def init_def)

text \<open>
  Two further runs outside the actions above. A decode that fails leaves the indicator
  true with no source; and when the last playing source ends while the next chunk is
  in the decoder, that chunk is then scheduled with the indicator false.
\<close>

lemma failed_decode_leaves_speaking:
  "isSpeaking (run [Arrive audioMessage env0, Settled 0 None env0] init) \<and>
   sources (run [Arrive audioMessage env0, Settled 0 None env0] init) = []"
  by (simp add: onmessageBegin_def onmessageResume_def hasAudio_def audioMessage_def
      emptyMessage_def audioBegin_def init_def)

lemma ended_during_decode:
  "\<not> isSpeaking (run [Arrive audioMessage env0, Ended 0, Settled 0 (Some 1) env0] playing) \<and>
   sources (run [Arrive audioMessage env0, Ended 0, Settled 0 (Some 1) env0] playing) =
     [\<lparr>node = 1, startAt = 1, duration = 1\<rparr>]"
  by (simp add: playing_eq onmessageBegin_def onmessageResume_def onmessageRest_def
      onmessageContent_def hasAudio_def audioMessage_def emptyMessage_def env0_def
      audioBegin_def audioResume_def onended_def set_add_def set_delete_def init_def Let_def)

section \<open>Tool calls\<close>

lemma dispatch_sent:
  "sent (dispatch e i fcs s) = sent s @ map acknowledgment (filter isFeedbackCall fcs)"
  by (induction e i fcs s rule: dispatch.induct)
     (simp_all add: Let_def setFeedbacks_frame isFeedbackCall_def acknowledgment_def)

lemma dispatch_feedbacks:
  "withArgs fcs \<Longrightarrow>
   feedbacks (dispatch e i fcs s) = rev (recorded e i fcs) @ feedbacks s \<and>
   renderErrors (dispatch e i fcs s) = renderErrors s"
proof (induction e i fcs s rule: dispatch.induct)
  case (1 e i s)
  then show ?case by (simp add: recorded_def)
next
  case (2 e i fc fcs s)
  from "2.prems" have w: "withArgs fcs" by (simp add: withArgs_def)
  show ?case
  proof (cases "fc_name fc = ''provideFeedback''")
    case True
    with "2.prems" obtain a where a: "fc_args fc = Some a"
      by (auto simp: withArgs_def isFeedbackCall_def)
    show ?thesis
      using "2.IH"(1) [OF True refl w] True a
      by (simp add: Let_def setFeedbacks_def recorded_def isFeedbackCall_def feedbackOf_def)
  next
    case False
    then show ?thesis
      using "2.IH"(2) [OF False w] by (simp add: recorded_def isFeedbackCall_def)
  qed
qed

lemma length_recorded:
  "length (recorded e i fcs) = length (filter isFeedbackCall fcs)"
  unfolding recorded_def by (induction fcs arbitrary: i) simp_all

text \<open>
  C3, as the code has it. The handler does not validate the arguments. In a tool-call
  message in which every call named \<^verbatim>\<open>provideFeedback\<close> carries an argument object, each
  such call, whichever of category, message and sentiment are absent from its
  arguments, is acknowledged and also adds a feedback event: the events of the message
  are put in front of the feedback history, the last call's first, one per call, each
  with category, message and sentiment as the arguments have them, absent when absent
  there.
\<close>

theorem feedback_recorded_unvalidated:
  assumes "toolCall m = Some fcs" and "withArgs fcs"
  shows "feedbacks (fst (onmessageRest m e s)) = rev (recorded e 0 fcs) @ feedbacks s \<and>
    length (recorded e 0 fcs) = length (filter isFeedbackCall fcs) \<and>
    sent (fst (onmessageRest m e s)) = sent s @ map acknowledgment (filter isFeedbackCall fcs)"
  using assms dispatch_feedbacks [of fcs e 0 "onmessageContent m e s"]
  by (simp add: onmessageRest_def onmessageContent_log dispatch_sent length_recorded)

theorem feedback_recorded_unvalidated_witness:
  "toolCall (emptyMessage\<lparr>toolCall := Some [noSentiment, otherCall, fullCall]\<rparr>) =
     Some [noSentiment, otherCall, fullCall] \<and>
   withArgs [noSentiment, otherCall, fullCall] \<and>
   arg_sentiment (the (fc_args noSentiment)) = None \<and>
   feedbacks (fst (onmessageRest
       (emptyMessage\<lparr>toolCall := Some [noSentiment, otherCall, fullCall]\<rparr>) env0 init)) =
     [\<lparr>fb_id = [], fb_category = Some ''Tone'', fb_message = Some ''Good energy'',
       fb_sentiment = Some ''positive'', fb_timestamp = 0\<rparr>,
      \<lparr>fb_id = [], fb_category = Some ''Pace'', fb_message = Some ''Slow down'',
       fb_sentiment = None, fb_timestamp = 0\<rparr>] \<and>
   sent (fst (onmessageRest
       (emptyMessage\<lparr>toolCall := Some [noSentiment, otherCall, fullCall]\<rparr>) env0 init)) =
     [\<lparr>fr_id = ''c1'', fr_name = ''provideFeedback'', fr_result = ''feedback_received''\<rparr>,
      \<lparr>fr_id = ''c3'', fr_name = ''provideFeedback'', fr_result = ''feedback_received''\<rparr>]"
  using feedback_recorded_unvalidated
      [of "emptyMessage\<lparr>toolCall := Some [noSentiment, otherCall, fullCall]\<rparr>"
        "[noSentiment, otherCall, fullCall]" env0 init]
  by (simp add: emptyMessage_def withArgs_def isFeedbackCall_def recorded_def feedbackOf_def
      acknowledgment_def enumerate_eq_zip noSentiment_def otherCall_def fullCall_def env0_def
      init_def upt_rec)

text \<open>
  C3 as stated fails: a \<^verbatim>\<open>provideFeedback\<close> call without sentiment, received in the
  initial state, adds an event to the feedback history.
\<close>

theorem missing_sentiment_counterexample:
  "arg_sentiment (the (fc_args noSentiment)) = None \<and>
   feedbacks init = [] \<and>
   feedbacks (fst (onmessageRest (emptyMessage\<lparr>toolCall := Some [noSentiment]\<rparr>) env0 init)) \<noteq> []"
  by (simp add: onmessageRest_def onmessageContent_def setFeedbacks_def emptyMessage_def
      noSentiment_def init_def Let_def)

text \<open>
  C4, as the code has it. For every tool-call message the handler sends exactly one
  response per call named \<^verbatim>\<open>provideFeedback\<close>, in the order of the calls, each with the
  id and the name of its call and the result \<^verbatim>\<open>feedback_received\<close>, whatever the call's
  arguments are (fields absent, or no argument object at all); it sends none for a call
  of another name.
\<close>

theorem one_ack_per_feedback_call:
  assumes "toolCall m = Some fcs"
  shows "sent (fst (onmessageRest m e s)) =
      sent s @ map acknowledgment (filter isFeedbackCall fcs) \<and>
    snd (onmessageRest m e s) = None"
  using assms by (simp add: onmessageRest_def onmessageContent_log dispatch_sent)

theorem one_ack_per_feedback_call_witness:
  "toolCall (emptyMessage\<lparr>toolCall := Some [noSentiment, otherCall, noArgs, fullCall]\<rparr>) =
     Some [noSentiment, otherCall, noArgs, fullCall] \<and>
   sent (fst (onmessageRest
      (emptyMessage\<lparr>toolCall := Some [noSentiment, otherCall, noArgs, fullCall]\<rparr>) env0 init)) =
     [\<lparr>fr_id = ''c1'', fr_name = ''provideFeedback'', fr_result = ''feedback_received''\<rparr>,
      \<lparr>fr_id = ''c4'', fr_name = ''provideFeedback'', fr_result = ''feedback_received''\<rparr>,
      \<lparr>fr_id = ''c3'', fr_name = ''provideFeedback'', fr_result = ''feedback_received''\<rparr>]"
  using one_ack_per_feedback_call
      [of "emptyMessage\<lparr>toolCall := Some [noSentiment, otherCall, noArgs, fullCall]\<rparr>"
        "[noSentiment, otherCall, noArgs, fullCall]" env0 init]
  by (simp add: emptyMessage_def isFeedbackCall_def acknowledgment_def
      noSentiment_def otherCall_def noArgs_def fullCall_def init_def)

text \<open>
  C4 as stated fails: a message with one tool call of another name is answered with no
  response at all.
\<close>

theorem other_name_counterexample:
  "sent init = [] \<and>
   sent (fst (onmessageRest (emptyMessage\<lparr>toolCall := Some [otherCall]\<rparr>) env0 init)) = [] \<and>
   length (sent (fst (onmessageRest (emptyMessage\<lparr>toolCall := Some [otherCall]\<rparr>) env0 init))) \<noteq>
     length (sent init) + length [otherCall]"
  by (simp add: onmessageRest_def onmessageContent_def emptyMessage_def otherCall_def
      init_def Let_def)

text \<open>
  A \<^verbatim>\<open>provideFeedback\<close> call without an argument object is acknowledged like any other,
  and the loop goes on to the next call; its updater throws when React applies it.
\<close>

lemma call_without_args_acknowledged:
  "sent (dispatch env0 0 [noArgs, fullCall] init) =
     [acknowledgment noArgs, acknowledgment fullCall] \<and>
   renderErrors (dispatch env0 0 [noArgs, fullCall] init) = [TypeError]"
  by (simp add: noArgs_def fullCall_def setFeedbacks_def acknowledgment_def init_def Let_def)

section \<open>Transcript turns\<close>

lemma flushTurn_effect:
  "transcriptions (flushTurn e s) = transcriptions s
     @ (if bufUser s \<noteq> [] then
          [\<lparr>te_role = User, te_text = bufUser s, te_timestamp = entryNow e User\<rparr>] else [])
     @ (if bufModel s \<noteq> [] then
          [\<lparr>te_role = Model, te_text = bufModel s, te_timestamp = entryNow e Model\<rparr>] else []) \<and>
   bufUser (flushTurn e s) = [] \<and> bufModel (flushTurn e s) = [] \<and>
   awaiting (flushTurn e s) = awaiting s"
  by (simp add: flushTurn_def Let_def)

text \<open>
  The state in which a message reaches the \<^verbatim>\<open>turnComplete\<close> branch: the buffers hold
  what they held before, followed by what the message itself carries.
\<close>

lemma before_turnComplete:
  "\<exists>s3. onmessageContent m e s = (if turnComplete m then flushTurn e s3 else s3) \<and>
     bufUser s3 = userTurn m s \<and> bufModel s3 = modelTurn m s \<and>
     transcriptions s3 = transcriptions s \<and> awaiting s3 = awaiting s"
proof -
  let ?s1 = "if interrupted m then interrupt s else s"
  let ?s2 = "case inputTranscription m of None \<Rightarrow> ?s1 | Some t \<Rightarrow> appendUser (textOf t) ?s1"
  let ?s3 = "case outputTranscription m of None \<Rightarrow> ?s2 | Some t \<Rightarrow> appendModel (textOf t) ?s2"
  have "onmessageContent m e s = (if turnComplete m then flushTurn e ?s3 else ?s3)"
    by (simp add: onmessageContent_def Let_def)
  moreover have "bufUser ?s3 = userTurn m s \<and> bufModel ?s3 = modelTurn m s \<and>
     transcriptions ?s3 = transcriptions s \<and> awaiting ?s3 = awaiting s"
    by (simp add: userTurn_def modelTurn_def userFragment_def modelFragment_def textOf_def
        appendUser_def appendModel_def interrupt_def stopAll_def split: option.splits)
  ultimately show ?thesis by blast
qed

text \<open>
  C6. When the handler processes a message flagged \<^verbatim>\<open>turnComplete\<close>, whatever else the
  message carries and whatever the state: if both buffers are empty at the flush, no
  transcript entry is added; if exactly one channel's buffer is non-empty, exactly one
  entry is added, with that role and the buffer's text; if both are non-empty, the user
  entry is added before the model entry; and in every case both buffers are empty
  afterwards. The tool-call branch that follows does not disturb this.
\<close>

theorem turn_complete_entries:
  assumes "turnComplete m"
  shows "(userTurn m s = [] \<and> modelTurn m s = [] \<longrightarrow>
      transcriptions (fst (onmessageRest m e s)) = transcriptions s) \<and>
   (userTurn m s \<noteq> [] \<and> modelTurn m s = [] \<longrightarrow>
      transcriptions (fst (onmessageRest m e s)) = transcriptions s @
        [\<lparr>te_role = User, te_text = userTurn m s, te_timestamp = entryNow e User\<rparr>]) \<and>
   (userTurn m s = [] \<and> modelTurn m s \<noteq> [] \<longrightarrow>
      transcriptions (fst (onmessageRest m e s)) = transcriptions s @
        [\<lparr>te_role = Model, te_text = modelTurn m s, te_timestamp = entryNow e Model\<rparr>]) \<and>
   (userTurn m s \<noteq> [] \<and> modelTurn m s \<noteq> [] \<longrightarrow>
      transcriptions (fst (onmessageRest m e s)) = transcriptions s @
        [\<lparr>te_role = User, te_text = userTurn m s, te_timestamp = entryNow e User\<rparr>,
         \<lparr>te_role = Model, te_text = modelTurn m s, te_timestamp = entryNow e Model\<rparr>]) \<and>
   bufUser (fst (onmessageRest m e s)) = [] \<and> bufModel (fst (onmessageRest m e s)) = []"
proof -
  from before_turnComplete [of m e s] assms obtain s3 where
    "onmessageContent m e s = flushTurn e s3" "bufUser s3 = userTurn m s"
    "bufModel s3 = modelTurn m s" "transcriptions s3 = transcriptions s"
    by auto
  then show ?thesis by (simp add: onmessageRest_transcript flushTurn_effect)
qed

theorem turn_complete_entries_witness:
  "turnComplete turnEnds \<and>
   userTurn turnEnds init = [] \<and> modelTurn turnEnds init = [] \<and>
   transcriptions (fst (onmessageRest turnEnds env0 init)) = [] \<and>
   userTurn turnEnds (init\<lparr>bufUser := ''hi''\<rparr>) = ''hi'' \<and>
   modelTurn turnEnds (init\<lparr>bufUser := ''hi''\<rparr>) = [] \<and>
   transcriptions (fst (onmessageRest turnEnds env0 (init\<lparr>bufUser := ''hi''\<rparr>))) =
     [\<lparr>te_role = User, te_text = ''hi'', te_timestamp = 0\<rparr>] \<and>
   transcriptions (fst (onmessageRest turnEnds env0 (init\<lparr>bufModel := ''ok''\<rparr>))) =
     [\<lparr>te_role = Model, te_text = ''ok'', te_timestamp = 0\<rparr>] \<and>
   transcriptions
     (fst (onmessageRest turnEnds env0 (init\<lparr>bufUser := ''hi'', bufModel := ''ok''\<rparr>))) =
     [\<lparr>te_role = User, te_text = ''hi'', te_timestamp = 0\<rparr>,
      \<lparr>te_role = Model, te_text = ''ok'', te_timestamp = 0\<rparr>] \<and>
   bufUser (fst (onmessageRest turnEnds env0 (init\<lparr>bufUser := ''hi'', bufModel := ''ok''\<rparr>))) = [] \<and>
   bufModel (fst (onmessageRest turnEnds env0 (init\<lparr>bufUser := ''hi'', bufModel := ''ok''\<rparr>))) = []"
  using turn_complete_entries [of turnEnds init env0]
    turn_complete_entries [of turnEnds "init\<lparr>bufUser := ''hi''\<rparr>" env0]
    turn_complete_entries [of turnEnds "init\<lparr>bufModel := ''ok''\<rparr>" env0]
    turn_complete_entries [of turnEnds "init\<lparr>bufUser := ''hi'', bufModel := ''ok''\<rparr>" env0]
  by (simp add: turnEnds_def emptyMessage_def userTurn_def modelTurn_def userFragment_def
      modelFragment_def init_def env0_def)









section \<open>Stopping the session\<close>

text \<open>
  C8, as the code has it. After the user's stop and after a channel error, from any
  state: the session is not active, the speaking indicator is false, \<^verbatim>\<open>stop\<close> has been
  called on every source that was active and the set of active sources is empty, and
  the channel, if one was held, has been closed and released; a channel error also sets
  the error message. The microphone stream and the script processor are left as they
  were.
\<close>

theorem stop_releases:
  "\<not> isActive (stopSession s) \<and> \<not> isSpeaking (stopSession s) \<and>
   sources (stopSession s) = [] \<and>
   stopped (stopSession s) = stopped s @ map node (sources s) \<and>
   \<not> session (stopSession s) \<and>
   closes (stopSession s) = (if session s then closes s + 1 else closes s) \<and>
   micLive (stopSession s) = micLive s \<and> capturing (stopSession s) = capturing s \<and>
   \<not> isActive (onerror s) \<and> \<not> isSpeaking (onerror s) \<and>
   sources (onerror s) = [] \<and>
   stopped (onerror s) = stopped s @ map node (sources s) \<and>
   \<not> session (onerror s) \<and>
   closes (onerror s) = (if session s then closes s + 1 else closes s) \<and>
   micLive (onerror s) = micLive s \<and> capturing (onerror s) = capturing s \<and>
   error (onerror s) = Some ''Communication lost. Please try restarting the session.''"
  by (simp add: stopSession_def onerror_def stopAll_def Let_def)

theorem stop_releases_witness:
  "sources playing = [\<lparr>node = 0, startAt = 0, duration = 1\<rparr>] \<and> session playing \<and>
   sources (stopSession playing) = [] \<and> stopped (stopSession playing) = [0] \<and>
   closes (stopSession playing) = 1 \<and> capturing (stopSession playing) \<and>
   sources (onerror playing) = [] \<and> stopped (onerror playing) = [0] \<and>
   closes (onerror playing) = 1"
  using stop_releases [of playing] by (simp add: playing_eq init_def)

text \<open>
  C8 as stated fails. When the channel closes while a source is scheduled, the session
  becomes inactive and the source stays in the set of active sources, not stopped; and
  after the user's stop the microphone stream is still live and the script processor
  still connected.
\<close>

theorem close_counterexample:
  "\<not> isActive (run [ChannelClosed] playing) \<and>
   sources (run [ChannelClosed] playing) \<noteq> [] \<and>
   stopped (run [ChannelClosed] playing) = [] \<and>
   \<not> isActive (run [StopClicked] playing) \<and>
   micLive (run [StopClicked] playing) \<and> capturing (run [StopClicked] playing)"
  by (simp add: playing_eq init_def onclose_def stopSession_def stopAll_def)

section \<open>Order of the feedback list\<close>

lemma insert_cmp_newestFirst:
  "insert_cmp newestFirst x ys = insort_key (\<lambda>f. - fb_timestamp f) x ys"
  by (induction ys) (simp_all add: newestFirst_def)

lemma js_sort_newestFirst:
  "js_sort newestFirst xs = sort_key (\<lambda>f. - fb_timestamp f) xs"
  unfolding js_sort_def by (induction xs) (simp_all add: insert_cmp_newestFirst)

lemma sorted_desc:
  "sorted_wrt (\<lambda>a b. fb_timestamp b \<le> fb_timestamp a) (js_sort newestFirst xs)"
proof -
  have "sorted (map (\<lambda>f. - fb_timestamp f) (js_sort newestFirst xs))"
    by (simp add: js_sort_newestFirst)
  then show ?thesis by (simp add: sorted_wrt_map)
qed

lemma mset_js_sort: "mset (js_sort newestFirst xs) = mset xs"
  by (simp add: js_sort_newestFirst)

lemma stable_js_sort:
  "filter (\<lambda>f. fb_timestamp f = t) (js_sort newestFirst xs) =
   filter (\<lambda>f. fb_timestamp f = t) xs"
  using sort_key_stable [of "\<lambda>f. - fb_timestamp f" "- t" xs]
  by (simp add: js_sort_newestFirst)

lemma FeedbackList_eq:
  "FeedbackList h a = (h @ [js_sort newestFirst (h ! a)],
     if js_sort newestFirst (h ! a) = [] then Placeholder
     else Cards (js_sort newestFirst (h ! a)))"
  by (simp add: FeedbackList_def spread_def array_sort_def)

text \<open>
  C10, as the code has it. For every array of feedback events passed to the component,
  the cards are the events of the array, each as often as there, in descending order
  of timestamp (no card is older than the one after it), events of equal timestamp in
  the order they have in the array; and the array passed in, like every array that
  existed before, is unmodified: the sort works on a copy.
\<close>

theorem feedback_list_order:
  assumes "a < length h"
  shows "sorted_wrt (\<lambda>x y. fb_timestamp y \<le> fb_timestamp x) (cards (snd (FeedbackList h a))) \<and>
    mset (cards (snd (FeedbackList h a))) = mset (h ! a) \<and>
    filter (\<lambda>f. fb_timestamp f = t) (cards (snd (FeedbackList h a))) =
      filter (\<lambda>f. fb_timestamp f = t) (h ! a) \<and>
    fst (FeedbackList h a) ! a = h ! a \<and>
    take (length h) (fst (FeedbackList h a)) = h"
proof -
  have c: "cards (snd (FeedbackList h a)) = js_sort newestFirst (h ! a)"
    by (simp add: FeedbackList_eq)
  have "fst (FeedbackList h a) ! a = h ! a"
    using assms by (simp add: FeedbackList_eq nth_append)
  moreover have "take (length h) (fst (FeedbackList h a)) = h"
    by (simp add: FeedbackList_eq)
  ultimately show ?thesis
    by (simp add: c sorted_desc mset_js_sort stable_js_sort)
qed

theorem feedback_list_order_witness:
  "(0::nat) < length [[fbA, fbB, fbC]] \<and>
   cards (snd (FeedbackList [[fbA, fbB, fbC]] 0)) = [fbC, fbA, fbB] \<and>
   fst (FeedbackList [[fbA, fbB, fbC]] 0) ! 0 = [fbA, fbB, fbC]"
  using feedback_list_order [of 0 "[[fbA, fbB, fbC]]" 1000]
  by (simp add: FeedbackList_eq js_sort_def newestFirst_def fbA_def fbB_def fbC_def)

text \<open>
  C10 as stated fails: two events with the same timestamp are rendered one after the
  other, so the rendered order is not strictly descending.
\<close>

theorem ties_counterexample:
  "cards (snd (FeedbackList [[fbA, fbB]] 0)) = [fbA, fbB] \<and>
   fb_timestamp fbA = fb_timestamp fbB \<and>
   \<not> sorted_wrt (\<lambda>x y. fb_timestamp y < fb_timestamp x) (cards (snd (FeedbackList [[fbA, fbB]] 0)))"
  by (simp add: FeedbackList_eq js_sort_def newestFirst_def fbA_def fbB_def)

end
